theory Spec2Isabelle
  imports Main
begin

section \<open>JavaScript values\<close>

text \<open>
  The chat route reads its request body with \<open>req.json()\<close> and types the messages as
  \<open>any[]\<close>; the history route reads what \<open>JSON.parse\<close> returns. Both are values
  of the following type. \<open>JUndefined\<close> is what reading a missing property gives.
  A string is the list of its code units. A number is represented by an integer: the
  code looks at whether a number is zero, and at its text only through the platform's
  coercion, which is a parameter below.
\<close>

datatype json =
    JUndefined
  | JNull
  | JBool bool
  | JNum int
  | JStr string
  | JArr "json list"
  | JObj "(string \<times> json) list"

text \<open>\<open>!!v\<close>\<close>

fun truthy :: "json \<Rightarrow> bool" where
  "truthy JUndefined = False"
| "truthy JNull = False"
| "truthy (JBool b) = b"
| "truthy (JNum n) = (n \<noteq> 0)"
| "truthy (JStr s) = (s \<noteq> [])"
| "truthy (JArr xs) = True"
| "truthy (JObj kvs) = True"

text \<open>\<open>v == null\<close>: true of \<open>null\<close> and \<open>undefined\<close> only.\<close>

fun nullish :: "json \<Rightarrow> bool" where
  "nullish JUndefined = True"
| "nullish JNull = True"
| "nullish v = False"

text \<open>
  \<open>v.k\<close> for the property names the code reads (\<open>role\<close>, \<open>content\<close>,
  \<open>parts\<close>, \<open>type\<close>, \<open>text\<close>, \<open>textDelta\<close>, \<open>image_url\<close>, \<open>url\<close>,
  \<open>image\<close>, \<open>data\<close>, \<open>src\<close>, \<open>messages\<close>, \<open>conversationId\<close>): an object
  gives the field or \<open>undefined\<close>; a boolean, number, string or array has none of these
  properties. On \<open>null\<close> and \<open>undefined\<close> JavaScript throws a TypeError: every
  place of the code that reads a property without a guard tests \<open>nullish\<close> first in
  the model and makes the throw a branch.
\<close>

fun js_get :: "json \<Rightarrow> string \<Rightarrow> json" where
  "js_get (JObj kvs) k = (case map_of kvs k of Some v \<Rightarrow> v | None \<Rightarrow> JUndefined)"
| "js_get v k = JUndefined"

text \<open>\<open>v?.k\<close>\<close>

definition optchain :: "json \<Rightarrow> string \<Rightarrow> json" where
  "optchain v k = (if nullish v then JUndefined else js_get v k)"

text \<open>\<open>a || b\<close>\<close>

definition js_or :: "json \<Rightarrow> json \<Rightarrow> json" where
  "js_or a b = (if truthy a then a else b)"

text \<open>\<open>Array.isArray(v)\<close>\<close>

fun isArray :: "json \<Rightarrow> bool" where
  "isArray (JArr xs) = True"
| "isArray v = False"

text \<open>\<open>s.startsWith(p)\<close>\<close>

definition startsWith :: "string \<Rightarrow> string \<Rightarrow> bool" where
  "startsWith s p = (take (length p) s = p)"

text \<open>
  The white space of \<open>trim()\<close> and of the regular expression class \<open>\s\<close>, among the
  code units a \<open>char\<close> holds: tab, line feed, vertical tab, form feed, carriage return,
  space and the no-break space.
\<close>

definition is_space :: "char \<Rightarrow> bool" where
  "is_space c = (c \<in> set [CHR 0x09, CHR 0x0A, CHR 0x0B, CHR 0x0C, CHR 0x0D, CHR 0x20, CHR 0xA0])"

definition trim :: "string \<Rightarrow> string" where
  "trim s = rev (dropWhile is_space (rev (dropWhile is_space s)))"

text \<open>
  Text appended to a string, \<open>s + v\<close> and \<open>String(v)\<close>: a string is taken as it is;
  what any other value turns into is the platform's coercion, the parameter \<open>coerce\<close>.
\<close>

definition to_text :: "(json \<Rightarrow> string) \<Rightarrow> json \<Rightarrow> string" where
  "to_text coerce v = (case v of JStr s \<Rightarrow> s | _ \<Rightarrow> coerce v)"

text \<open>The object literals \<open>{ type: 'text', text: t }\<close>, \<open>{ type: 'image', image: d }\<close>
  and \<open>{ type: 'image_url', image_url: { url: u } }\<close>.\<close>

definition text_part :: "json \<Rightarrow> json" where
  "text_part t = JObj [(''type'', JStr ''text''), (''text'', t)]"

definition image_part :: "string \<Rightarrow> json" where
  "image_part d = JObj [(''type'', JStr ''image''), (''image'', JStr d)]"

definition image_url_part :: "json \<Rightarrow> json" where
  "image_url_part u = JObj [(''type'', JStr ''image_url''), (''image_url'', JObj [(''url'', u)])]"

section \<open>The outgoing parts (chat-interface.tsx, handleSubmit)\<close>

text \<open>The interface \<open>Message\<close> of the chat view; \<open>images\<close> is optional.\<close>

datatype ui_role = User | Assistant

record ui_message =
  ui_id :: string
  ui_role :: ui_role
  ui_content :: string
  ui_createdAt :: string
  ui_images :: "string list option"

text \<open>\<open>parts.every(p => p.type === 'image')\<close>; the parts are the object literals
  pushed just before, never \<open>null\<close>.\<close>

definition every_image :: "json list \<Rightarrow> bool" where
  "every_image parts = list_all (\<lambda>p. js_get p ''type'' = JStr ''image'') parts"

text \<open>
  The parts of the turn being sent. \<open>userMessage\<close> is \<open>input.trim()\<close> and
  \<open>imagesToSend\<close> the selected data URLs: a text part if there is text, one image part
  for each image, and a text part unshifted when the array is empty or holds images only.
\<close>

definition new_parts :: "string \<Rightarrow> string list \<Rightarrow> json list" where
  "new_parts userMessage imagesToSend =
     (let parts = (if trim userMessage \<noteq> [] then [text_part (JStr userMessage)] else [])
                  @ map image_part imagesToSend
      in if parts = [] \<or> every_image parts then text_part (JStr userMessage) # parts
         else parts)"

text \<open>The same for a user message of the history (the \<open>else\<close> branch of the
  \<open>map\<close> over \<open>messages\<close>).\<close>

definition history_parts :: "ui_message \<Rightarrow> json list" where
  "history_parts msg =
     (let parts = (if ui_content msg \<noteq> [] \<and> trim (ui_content msg) \<noteq> []
                      \<and> ui_content msg \<noteq> ''[Image]''
                   then [text_part (JStr (ui_content msg))] else [])
                  @ (case ui_images msg of
                       None \<Rightarrow> []
                     | Some imgs \<Rightarrow> map image_part imgs)
      in if parts = [] \<or> every_image parts then text_part (JStr (ui_content msg)) # parts
         else parts)"

text \<open>One entry of \<open>historyMessages\<close>: an assistant message goes out with its string
  content, a user message with its parts.\<close>

definition history_message :: "ui_message \<Rightarrow> json" where
  "history_message msg =
     (if ui_role msg = Assistant
      then JObj [(''role'', JStr ''assistant''), (''content'', JStr (ui_content msg))]
      else JObj [(''role'', JStr ''user''), (''parts'', JArr (history_parts msg))])"

text \<open>\<open>allMessages\<close>: the history without the temporary entries, then the new turn.\<close>

definition outgoing_messages :: "ui_message list \<Rightarrow> string \<Rightarrow> string list \<Rightarrow> json list" where
  "outgoing_messages messages userMessage imagesToSend =
     map history_message (filter (\<lambda>msg. \<not> startsWith (ui_id msg) ''temp-'') messages)
     @ [JObj [(''role'', JStr ''user''), (''parts'', JArr (new_parts userMessage imagesToSend))]]"

section \<open>The stream consumer (chat-interface.tsx, handleSubmit)\<close>







section \<open>The Conversation Store and the request environment\<close>

text \<open>
  The tables the routes read and write through Prisma. The lists are in order of
  creation, which is the order \<open>orderBy: { createdAt: 'asc' }\<close> returns.
\<close>

record conversation =
  conv_id :: string
  conv_userId :: string
  conv_title :: string
  conv_updatedAt :: nat

record message =
  msg_conversationId :: string
  msg_role :: string
  msg_content :: string

record store =
  conversation_rows :: "conversation list"
  message_rows :: "message list"

text \<open>What \<open>streamText\<close> does with the messages: it throws an error with a message, the
  stream runs to its end with the full text (\<open>onFinish\<close> is called), or the stream
  breaks after some text (\<open>onFinish\<close> is not called).\<close>

datatype model_outcome = ModelThrows string | ModelCompletes string | ModelBreaks string

text \<open>What the code throws: the error of \<open>requireAuth\<close>, a TypeError, the
  SyntaxError of a body that is not JSON, an error of the store, and an error of the
  model with its message.\<close>

datatype error = Unauthorized | TypeError | SyntaxError | StoreError | ModelError string

text \<open>
  Everything a request meets outside the route's own code: the session of the caller
  (the user's id, \<open>None\<close> without a valid session); the library function
  \<open>convertToModelMessages\<close> (\<open>None\<close> where it throws); the built-ins
  \<open>JSON.parse\<close> (\<open>None\<close> where it throws), \<open>JSON.stringify\<close> and the coercion of a
  value to a string; whether each store operation fails; what the store's query gives
  for an id that is not a string (the client refuses a number, and reads an object as a
  filter on the id); the id the store gives a new conversation (\<open>None\<close> when the
  create fails); the clock; and the model.
\<close>

record env =
  session :: "string option"
  convertToModelMessages :: "json list \<Rightarrow> json list option"
  JSON_parse :: "string \<Rightarrow> json option"
  JSON_stringify :: "json \<Rightarrow> string"
  String_coerce :: "json \<Rightarrow> string"
  findFirst_fails :: bool
  findFirst_where :: "json \<Rightarrow> string \<Rightarrow> store \<Rightarrow> error + conversation option"
  conversation_create_id :: "string option"
  user_message_create_fails :: bool
  assistant_message_create_fails :: bool
  conversation_update_fails :: bool
  create_time :: nat
  finish_time :: nat
  streamText :: "string \<Rightarrow> json list \<Rightarrow> model_outcome"

text \<open>The responses of the three routes: a JSON body with a status and its \<open>error\<close>
  text, the streamed answer (its text, whether the stream ran to its end, and the header
  \<open>X-Conversation-Id\<close>), the created conversation, and the messages of a conversation
  (role and re-expanded content of each).\<close>

datatype response =
    JsonResponse nat string
  | StreamResponse string bool "string option"
  | ConversationResponse conversation
  | MessagesResponse "(string \<times> json list) list"

text \<open>\<open>requireAuth()\<close>\<close>

definition requireAuth :: "env \<Rightarrow> error + string" where
  "requireAuth env = (case session env of None \<Rightarrow> Inl Unauthorized | Some uid \<Rightarrow> Inr uid)"

text \<open>\<open>prisma.conversation.findFirst({ where: { id, userId } })\<close>\<close>

definition findFirst :: "env \<Rightarrow> store \<Rightarrow> string \<Rightarrow> string \<Rightarrow> error + conversation option" where
  "findFirst env st cid uid =
     (if findFirst_fails env then Inl StoreError
      else Inr (find (\<lambda>c. conv_id c = cid \<and> conv_userId c = uid) (conversation_rows st)))"

text \<open>\<open>prisma.conversation.create({ data: { userId, title } })\<close>\<close>

definition conversation_create ::
  "env \<Rightarrow> store \<Rightarrow> string \<Rightarrow> string \<Rightarrow> error + (conversation \<times> store)" where
  "conversation_create env st uid title =
     (case conversation_create_id env of
        None \<Rightarrow> Inl StoreError
      | Some cid \<Rightarrow>
          (let c = \<lparr>conv_id = cid, conv_userId = uid, conv_title = title,
                    conv_updatedAt = create_time env\<rparr>
           in Inr (c, st\<lparr>conversation_rows := conversation_rows st @ [c]\<rparr>)))"

text \<open>\<open>prisma.message.create({ data: { conversationId, role, content } })\<close>, when it
  succeeds.\<close>

definition message_create :: "store \<Rightarrow> string \<Rightarrow> string \<Rightarrow> string \<Rightarrow> store" where
  "message_create st cid role content =
     st\<lparr>message_rows := message_rows st @
          [\<lparr>msg_conversationId = cid, msg_role = role, msg_content = content\<rparr>]\<rparr>"

text \<open>\<open>prisma.conversation.update({ where: { id }, data: { updatedAt: new Date() } })\<close>,
  when it succeeds.\<close>

definition conversation_update :: "store \<Rightarrow> string \<Rightarrow> nat \<Rightarrow> store" where
  "conversation_update st cid t =
     st\<lparr>conversation_rows :=
          map (\<lambda>c. if conv_id c = cid then c\<lparr>conv_updatedAt := t\<rparr> else c) (conversation_rows st)\<rparr>"

section \<open>POST /api/conversations (part_007)\<close>

text \<open>The \<open>catch\<close> of the route answers 401 to the error \<open>Unauthorized\<close> and 500 to
  any other.\<close>

definition POST_conversations :: "env \<Rightarrow> store \<Rightarrow> response \<times> store" where
  "POST_conversations env st =
     (case requireAuth env of
        Inl e \<Rightarrow> (JsonResponse 401 ''Unauthorized'', st)
      | Inr uid \<Rightarrow>
          (case conversation_create env st uid ''New Conversation'' of
             Inl e \<Rightarrow> (JsonResponse 500 ''Failed to create conversation'', st)
           | Inr (c, st') \<Rightarrow> (ConversationResponse c, st')))"

section \<open>GET /api/conversations/[conversationId]/messages (part_006)\<close>

text \<open>
  The function mapped over a parsed array. Reading \<open>part.type\<close> of \<open>null\<close> throws;
  the \<open>catch\<close> around the parse then takes the whole content as plain text, so the
  throw is \<open>None\<close> here.
\<close>

definition expand_part :: "json \<Rightarrow> json option" where
  "expand_part part =
     (if nullish part then None
      else if js_get part ''type'' = JStr ''text''
        then Some (text_part (js_or (js_get part ''text'') (JStr [])))
      else if js_get part ''type'' = JStr ''image_url''
              \<and> truthy (optchain (js_get part ''image_url'') ''url'')
        then Some (image_url_part (js_get (js_get part ''image_url'') ''url''))
      else if js_get part ''type'' = JStr ''image''
              \<and> (truthy (js_get part ''image'') \<or> truthy (js_get part ''url''))
        then Some (image_url_part (js_or (js_get part ''image'') (js_get part ''url'')))
      else Some part)"

text \<open>The content of one stored message, re-expanded into an array of parts.\<close>

definition expand_content :: "(string \<Rightarrow> json option) \<Rightarrow> string \<Rightarrow> json list" where
  "expand_content parse content =
     (if content = [] then [text_part (JStr [])]
      else if hd content \<noteq> CHR ''['' \<and> hd content \<noteq> CHR ''{'' then [text_part (JStr content)]
      else
        (case parse content of
           None \<Rightarrow> [text_part (JStr content)]
         | Some parsedContent \<Rightarrow>
             (case parsedContent of
                JArr ps \<Rightarrow>
                  (case those (map expand_part ps) of
                     None \<Rightarrow> [text_part (JStr content)]
                   | Some mapped \<Rightarrow> filter (\<lambda>part. \<not> nullish part) mapped)
              | _ \<Rightarrow> [text_part (JStr content)])))"

definition GET_messages :: "env \<Rightarrow> store \<Rightarrow> string \<Rightarrow> response" where
  "GET_messages env st conversationId =
     (case requireAuth env of
        Inl e \<Rightarrow> JsonResponse 401 ''Unauthorized''
      | Inr uid \<Rightarrow>
          (case findFirst env st conversationId uid of
             Inl e \<Rightarrow> JsonResponse 500 ''Failed to fetch messages''
           | Inr None \<Rightarrow> JsonResponse 404 ''Conversation not found''
           | Inr (Some c) \<Rightarrow>
               MessagesResponse
                 (map (\<lambda>msg. (msg_role msg, expand_content (JSON_parse env) (msg_content msg)))
                    (filter (\<lambda>msg. msg_conversationId msg = conv_id c) (message_rows st)))))"

section \<open>POST /api/chat (part_008)\<close>

definition SYSTEM_PROMPT :: string where
  "SYSTEM_PROMPT =
    ''Tu es un assistant technique sp'' @ [CHR 0xE9] @ ''cialis'' @ [CHR 0xE9] @
    ''. Tu dois TOUJOURS r'' @ [CHR 0xE9] @ ''pondre en suivant cette structure exacte :'' @
    [CHR 0x0A] @ [CHR 0x0A] @ ''**1. R'' @ [CHR 0xE9] @ ''sum'' @ [CHR 0xE9] @
    '' (2 lignes maximum)**'' @ [CHR 0x0A] @ ''Une synth'' @ [CHR 0xE8] @
    ''se claire et concise de la r'' @ [CHR 0xE9] @ ''ponse.'' @ [CHR 0x0A] @ [CHR 0x0A] @
    ''**2. Analyse technique**'' @ [CHR 0x0A] @ ''D'' @ [CHR 0xE9] @
    ''tails techniques pertinents, concepts cl'' @ [CHR 0xE9] @ ''s, et contexte n'' @
    [CHR 0xE9] @ ''cessaire.'' @ [CHR 0x0A] @ [CHR 0x0A] @ ''**3. R'' @ [CHR 0xE9] @ ''f'' @
    [CHR 0xE9] @ ''rences normatives**'' @ [CHR 0x0A] @
    ''Standards, normes, bonnes pratiques, ou documentation offici'' @ ''elle applicables.'' @
    [CHR 0x0A] @ [CHR 0x0A] @ ''**4. Logique / Sch'' @ [CHR 0xE9] @ ''ma (texte)**'' @
    [CHR 0x0A] @ ''Explication de la logique, du flux de travail, ou de l'' @ [CHR 0x27] @
    ''architecture (en format texte/pseudo-code).'' @ [CHR 0x0A] @ [CHR 0x0A] @
    ''**5. Solutions / Recommandations**'' @ [CHR 0x0A] @ ''Solutions concr'' @ [CHR 0xE8] @
    ''tes, '' @ [CHR 0xE9] @ ''tapes '' @ [CHR 0xE0] @
    '' suivre, ou recommandations actionnables.'' @ [CHR 0x0A] @ [CHR 0x0A] @
    ''**6. Points de vigilance**'' @ [CHR 0x0A] @ ''Risques, limitations, pi'' @ [CHR 0xE8] @
    ''ges '' @ [CHR 0xE0] @ '' '' @ [CHR 0xE9] @ ''viter, ou consid'' @ [CHR 0xE9] @
    ''rations importantes.'' @ [CHR 0x0A] @ [CHR 0x0A] @
    ''**7. Version courte** (si pertinent)'' @ [CHR 0x0A] @ ''R'' @ [CHR 0xE9] @ ''sum'' @
    [CHR 0xE9] @ '' ultra-concis pour r'' @ [CHR 0xE9] @ ''f'' @ [CHR 0xE9] @
    ''rence rapide (optionnel selon le contexte).'' @ [CHR 0x0A] @ [CHR 0x0A] @
    ''IMPORTANT: '' @ [CHR 0x0A] @ ''- Tu dois respecter cette structure pour TOUTES les r'' @
    [CHR 0xE9] @ ''ponses, sans exception. Ne fournis jamais de r'' @ [CHR 0xE9] @
    ''ponses non structur'' @ [CHR 0xE9] @ ''es.'' @ [CHR 0x0A] @
    ''- Tu PEUX et DOIS analyser des images. Quand un utilisateur '' @
    ''envoie une image, tu DOIS l'' @ [CHR 0x27] @ ''analyser en d'' @ [CHR 0xE9] @
    ''tail et fournir une r'' @ [CHR 0xE9] @ ''ponse structur'' @ [CHR 0xE9] @
    ''e selon le format ci-dessus.'' @ [CHR 0x0A] @
    ''- Si un message contient une image, analyse-la compl'' @ [CHR 0xE8] @ ''tement et d'' @
    [CHR 0xE9] @ ''cris ce que tu vois dans ta r'' @ [CHR 0xE9] @ ''ponse.''"

text \<open>The \<open>catch\<close> of the route: 401 when the error's message is \<open>Unauthorized\<close>,
  500 otherwise.\<close>

definition error_response :: "error \<Rightarrow> response" where
  "error_response e =
     (if e = Unauthorized \<or> e = ModelError ''Unauthorized''
      then JsonResponse 401 ''Unauthorized''
      else JsonResponse 500 ''An error occurred'')"

text \<open>\<open>convertedMessages\<close>: the converted messages, or the messages as they came when
  the conversion throws.\<close>

definition convertedMessages :: "env \<Rightarrow> json list \<Rightarrow> json list" where
  "convertedMessages env messages =
     (case convertToModelMessages env messages of Some ms \<Rightarrow> ms | None \<Rightarrow> messages)"

text \<open>\<open>convertedMessages.filter(msg => msg != null && msg.role)\<close>\<close>

definition validMessages :: "json list \<Rightarrow> json list" where
  "validMessages converted =
     filter (\<lambda>msg. \<not> nullish msg \<and> truthy (js_get msg ''role'')) converted"

text \<open>
  The lookup of the conversation the request names. The id is whatever JSON value the
  body holds: a falsy one is no id; a string is looked up together with the caller's
  id; any other value goes to the store's query as it is.
\<close>

definition resolve_conversation ::
  "env \<Rightarrow> store \<Rightarrow> string \<Rightarrow> json \<Rightarrow> error + conversation option" where
  "resolve_conversation env st uid conversationId =
     (if truthy conversationId then
        (case conversationId of
           JStr cid \<Rightarrow> findFirst env st cid uid
         | _ \<Rightarrow> findFirst_where env conversationId uid st)
      else Inr None)"

text \<open>\<open>validMessages.filter(m => m.role === 'user').pop()\<close>\<close>

definition lastUserMessage :: "json list \<Rightarrow> json option" where
  "lastUserMessage valid =
     (case filter (\<lambda>m. js_get m ''role'' = JStr ''user'') valid of
        [] \<Rightarrow> None
      | u # us \<Rightarrow> Some (last (u # us)))"

text \<open>The title of a conversation about to be created, up to the \<open>slice\<close> in the
  \<open>create\<close> call.\<close>

definition derive_title :: "(json \<Rightarrow> string) \<Rightarrow> json list \<Rightarrow> string" where
  "derive_title coerce valid =
     (case lastUserMessage valid of
        None \<Rightarrow> ''New Conversation''
      | Some m \<Rightarrow>
          (case js_get m ''content'' of
             JStr s \<Rightarrow> take 50 s
           | JArr ps \<Rightarrow>
               (case find (\<lambda>p. truthy p \<and> js_get p ''type'' = JStr ''text'') ps of
                  None \<Rightarrow> ''New Conversation''
                | Some textPart \<Rightarrow>
                    if truthy (js_get textPart ''text'')
                    then take 50 (to_text coerce (js_get textPart ''text''))
                    else ''New Conversation'')
           | _ \<Rightarrow> ''New Conversation''))"

definition new_conversation_title :: "(json \<Rightarrow> string) \<Rightarrow> json list \<Rightarrow> string" where
  "new_conversation_title coerce valid =
     (let title = derive_title coerce valid
      in if length title > 50 then take 50 title else title)"

text \<open>
  \<open>convertImageToBase64\<close>. The regular expression is tested on the string without its
  white space: it accepts a non-empty string of letters, digits, \<open>+\<close>, \<open>/\<close> and \<open>=\<close>.
  A value that came from a JSON body has no function for a property, so the branch for
  objects with an \<open>arrayBuffer\<close> method is never taken; an object with a string
  \<open>data\<close> is converted through it. \<open>None\<close> is \<open>null\<close>.
\<close>

definition is_base64_char :: "char \<Rightarrow> bool" where
  "is_base64_char c =
     (c \<in> set (''ABCDEFGHIJKLMNOPQRSTUVWXYZabcdefghijklmnopqrstuvwxyz0123456789+/=''))"

definition convertImageToBase64_string :: "string \<Rightarrow> string option" where
  "convertImageToBase64_string imageInput =
     (if startsWith imageInput ''data:image/'' then Some imageInput
      else if startsWith imageInput ''http://'' \<or> startsWith imageInput ''https://''
        then Some imageInput
      else if startsWith imageInput ''blob:'' then None
      else if length imageInput > 100
              \<and> filter (\<lambda>c. \<not> is_space c) imageInput \<noteq> []
              \<and> list_all is_base64_char (filter (\<lambda>c. \<not> is_space c) imageInput)
        then Some (''data:image/jpeg;base64,'' @ filter (\<lambda>c. \<not> is_space c) imageInput)
      else None)"

definition convertImageToBase64 :: "json \<Rightarrow> string option" where
  "convertImageToBase64 imageInput =
     (case imageInput of
        JStr s \<Rightarrow> convertImageToBase64_string s
      | JObj kvs \<Rightarrow>
          (case map_of kvs ''data'' of
             Some (JStr d) \<Rightarrow> convertImageToBase64_string d
           | _ \<Rightarrow> None)
      | _ \<Rightarrow> None)"

text \<open>\<open>lastOriginalMessage && 'parts' in lastOriginalMessage &&
  Array.isArray(lastOriginalMessage.parts)\<close>, with the parts when it holds. The operator
  \<open>in\<close> throws a TypeError on a truthy value that is not an object.\<close>

definition original_parts :: "json \<Rightarrow> error + json list option" where
  "original_parts lastOriginalMessage =
     (if \<not> truthy lastOriginalMessage then Inr None
      else
        (case lastOriginalMessage of
           JObj kvs \<Rightarrow>
             (case map_of kvs ''parts'' of Some (JArr ps) \<Rightarrow> Inr (Some ps) | _ \<Rightarrow> Inr None)
         | JArr xs \<Rightarrow> Inr None
         | _ \<Rightarrow> Inl TypeError))"

text \<open>\<open>parts.some(p => (p.type === 'image' && p.image) || (p.type === 'file' && p.url))\<close>:
  the search stops at the first hit, and throws at a \<open>null\<close> it reaches before.\<close>

fun originalHasImages :: "json list \<Rightarrow> error + bool" where
  "originalHasImages [] = Inr False"
| "originalHasImages (p # ps) =
     (if nullish p then Inl TypeError
      else if (js_get p ''type'' = JStr ''image'' \<and> truthy (js_get p ''image''))
              \<or> (js_get p ''type'' = JStr ''file'' \<and> truthy (js_get p ''url''))
        then Inr True
      else originalHasImages ps)"

text \<open>The function mapped over the original parts (for a part that is not \<open>null\<close>);
  \<open>None\<close> is the \<open>null\<close> that \<open>filter(Boolean)\<close> drops.\<close>

definition part_for_saving :: "json \<Rightarrow> json option" where
  "part_for_saving part =
     (if js_get part ''type'' = JStr ''text''
        then Some (text_part (js_or (js_get part ''text'') (JStr [])))
      else if js_get part ''type'' = JStr ''image'' \<or> js_get part ''type'' = JStr ''file'' then
        (let imageData = js_or (js_or (js_or (js_get part ''url'') (js_get part ''image''))
                                  (js_get part ''data'')) (js_get part ''src'')
         in if truthy imageData then
              (case convertImageToBase64 imageData of
                 None \<Rightarrow> None
               | Some base64Image \<Rightarrow>
                   if base64Image \<noteq> [] then Some (image_url_part (JStr base64Image)) else None)
            else None)
      else None)"

text \<open>\<open>contentForSaving\<close> after \<open>filter(Boolean)\<close>. A \<open>null\<close> among the parts makes
  its promise reject, and the awaited \<open>Promise.all\<close> throws.\<close>

definition filteredContent :: "json list \<Rightarrow> error + json list" where
  "filteredContent parts =
     (if list_ex nullish parts then Inl TypeError
      else Inr (List.map_filter part_for_saving parts))"

text \<open>\<open>messageToSave\<close>: the last processed message, or the last original one with its
  parts converted when those hold an image.\<close>

definition messageToSave :: "json \<Rightarrow> json \<Rightarrow> error + json" where
  "messageToSave lastOriginalMessage lastProcessedMessage =
     (case original_parts lastOriginalMessage of
        Inl e \<Rightarrow> Inl e
      | Inr None \<Rightarrow> Inr lastProcessedMessage
      | Inr (Some parts) \<Rightarrow>
          (case originalHasImages parts of
             Inl e \<Rightarrow> Inl e
           | Inr False \<Rightarrow> Inr lastProcessedMessage
           | Inr True \<Rightarrow>
               (case filteredContent parts of
                  Inl e \<Rightarrow> Inl e
                | Inr fc \<Rightarrow>
                    if fc \<noteq> []
                    then Inr (JObj [(''role'', js_get lastOriginalMessage ''role''),
                                    (''content'', JArr fc)])
                    else Inr lastProcessedMessage)))"

text \<open>\<open>userMessageContent\<close>: a string content as it is, an array content through
  \<open>JSON.stringify\<close>, the empty string otherwise.\<close>

definition userMessageContent :: "env \<Rightarrow> json \<Rightarrow> string" where
  "userMessageContent env m =
     (case js_get m ''content'' of
        JStr s \<Rightarrow> s
      | JArr cs \<Rightarrow> JSON_stringify env (JArr cs)
      | _ \<Rightarrow> [])"

text \<open>\<open>xs[xs.length - 1]\<close>\<close>

definition last_or_undefined :: "json list \<Rightarrow> json" where
  "last_or_undefined xs = (if xs = [] then JUndefined else last xs)"

text \<open>
  The block \<open>if (conversation) { ... }\<close>: the store after the user's turn has been
  handed to it. The create is not awaited and its failure is swallowed by the
  \<open>catch\<close> on the promise; a TypeError can only be thrown before the create is issued.
\<close>

definition save_user_message ::
  "env \<Rightarrow> store \<Rightarrow> conversation option \<Rightarrow> json list \<Rightarrow> json list \<Rightarrow> error + store" where
  "save_user_message env st conversation messages valid =
     (case conversation of
        None \<Rightarrow> Inr st
      | Some c \<Rightarrow>
          (let lastOriginalMessage = last_or_undefined messages;
               lastProcessedMessage = last_or_undefined valid
           in if truthy lastProcessedMessage
                 \<and> js_get lastProcessedMessage ''role'' = JStr ''user'' then
                (case messageToSave lastOriginalMessage lastProcessedMessage of
                   Inl e \<Rightarrow> Inl e
                 | Inr m \<Rightarrow>
                     if userMessageContent env m \<noteq> [] then
                       (if user_message_create_fails env then Inr st
                        else Inr (message_create st (conv_id c) ''user''
                                    (userMessageContent env m)))
                     else Inr st)
              else Inr st))"

text \<open>\<open>modelMessages\<close> and \<open>allMessages\<close>\<close>

definition modelMessages :: "json list \<Rightarrow> json list" where
  "modelMessages valid =
     filter (\<lambda>msg. if \<not> truthy msg \<or> \<not> truthy (js_get msg ''role'') then False
                   else if js_get msg ''role'' = JStr ''system'' then False
                   else True) valid"

definition system_message :: json where
  "system_message = JObj [(''role'', JStr ''system''), (''content'', JStr SYSTEM_PROMPT)]"

definition allMessages :: "json list \<Rightarrow> json list" where
  "allMessages valid = system_message # modelMessages valid"

text \<open>\<open>msg.content.some(c => c.type === 'image_url' && c.image_url?.url)\<close>\<close>

fun some_image_url :: "json list \<Rightarrow> error + bool" where
  "some_image_url [] = Inr False"
| "some_image_url (c # cs) =
     (if nullish c then Inl TypeError
      else if js_get c ''type'' = JStr ''image_url''
              \<and> truthy (optchain (js_get c ''image_url'') ''url'')
        then Inr True
      else some_image_url cs)"

text \<open>\<open>hasImagesInAnyMessage\<close>, over \<open>allMessages\<close>\<close>

fun hasImagesInAnyMessage :: "json list \<Rightarrow> error + bool" where
  "hasImagesInAnyMessage [] = Inr False"
| "hasImagesInAnyMessage (msg # rest) =
     (case js_get msg ''content'' of
        JArr cs \<Rightarrow>
          (case some_image_url cs of
             Inl e \<Rightarrow> Inl e
           | Inr True \<Rightarrow> Inr True
           | Inr False \<Rightarrow> hasImagesInAnyMessage rest)
      | _ \<Rightarrow> hasImagesInAnyMessage rest)"

definition modelName :: "bool \<Rightarrow> string" where
  "modelName hasImages = (if hasImages then ''gpt-4o'' else ''gpt-4o-mini'')"

text \<open>\<open>onFinish\<close>: the assistant's text and the new \<open>updatedAt\<close> are written side by
  side, each on its own; what fails is swallowed by the \<open>catch\<close>.\<close>

definition onFinish :: "env \<Rightarrow> store \<Rightarrow> conversation option \<Rightarrow> string \<Rightarrow> store" where
  "onFinish env st conversation txt =
     (case conversation of
        None \<Rightarrow> st
      | Some c \<Rightarrow>
          (let st1 = (if assistant_message_create_fails env then st
                      else message_create st (conv_id c) ''assistant'' txt)
           in if conversation_update_fails env then st1
              else conversation_update st1 (conv_id c) (finish_time env)))"

text \<open>What a request leaves behind: the response, the store, and the call made to the
  model (its name and the messages), if one was made.\<close>

record outcome =
  response :: response
  store_after :: store
  model_call :: "(string \<times> json list) option"

definition failed :: "error \<Rightarrow> store \<Rightarrow> outcome" where
  "failed e st = \<lparr>response = error_response e, store_after = st, model_call = None\<rparr>"

text \<open>From \<open>modelMessages\<close> to the returned response.\<close>

definition invoke_model :: "env \<Rightarrow> store \<Rightarrow> conversation option \<Rightarrow> json list \<Rightarrow> outcome" where
  "invoke_model env st conversation valid =
     (case hasImagesInAnyMessage (allMessages valid) of
        Inl e \<Rightarrow> failed e st
      | Inr hasImages \<Rightarrow>
          (case streamText env (modelName hasImages) (allMessages valid) of
             ModelThrows msg \<Rightarrow>
               \<lparr>response = error_response (ModelError msg), store_after = st,
                model_call = Some (modelName hasImages, allMessages valid)\<rparr>
           | ModelCompletes txt \<Rightarrow>
               \<lparr>response = StreamResponse txt True (map_option conv_id conversation),
                store_after = onFinish env st conversation txt,
                model_call = Some (modelName hasImages, allMessages valid)\<rparr>
           | ModelBreaks txt \<Rightarrow>
               \<lparr>response = StreamResponse txt False (map_option conv_id conversation),
                store_after = st,
                model_call = Some (modelName hasImages, allMessages valid)\<rparr>))"

text \<open>\<open>Create new conversation if needed\<close>: the conversation the request goes on with,
  and the store.\<close>

definition obtain_conversation ::
  "env \<Rightarrow> store \<Rightarrow> string \<Rightarrow> conversation option \<Rightarrow> json list
     \<Rightarrow> error + (conversation option \<times> store)" where
  "obtain_conversation env st uid found valid =
     (if found = None \<and> valid \<noteq> [] then
        (case conversation_create env st uid (new_conversation_title (String_coerce env) valid) of
           Inl e \<Rightarrow> Inl e
         | Inr (c, st') \<Rightarrow> Inr (Some c, st'))
      else Inr (found, st))"

text \<open>The route from the converted messages on, for a body whose \<open>messages\<close> are an
  array.\<close>

definition chat_pipeline :: "env \<Rightarrow> store \<Rightarrow> string \<Rightarrow> json list \<Rightarrow> json \<Rightarrow> outcome" where
  "chat_pipeline env st uid messages conversationId =
     (let valid = validMessages (convertedMessages env messages)
      in case resolve_conversation env st uid conversationId of
           Inl e \<Rightarrow> failed e st
         | Inr found \<Rightarrow>
             (case obtain_conversation env st uid found valid of
                Inl e \<Rightarrow> failed e st
              | Inr (conversation, st1) \<Rightarrow>
                  (case save_user_message env st1 conversation messages valid of
                     Inl e \<Rightarrow> failed e st1
                   | Inr st2 \<Rightarrow> invoke_model env st2 conversation valid)))"

text \<open>
  The route. The body is the parsed request body, \<open>None\<close> when \<open>req.json()\<close> throws.
  Taking \<open>messages\<close> and \<open>conversationId\<close> out of a body that is \<open>null\<close> throws a
  TypeError.
\<close>

definition POST_chat :: "env \<Rightarrow> store \<Rightarrow> json option \<Rightarrow> outcome" where
  "POST_chat env st body =
     (case requireAuth env of
        Inl e \<Rightarrow> failed e st
      | Inr uid \<Rightarrow>
          (case body of
             None \<Rightarrow> failed SyntaxError st
           | Some b \<Rightarrow>
               if nullish b then failed TypeError st
               else if \<not> truthy (js_get b ''messages'') \<or> \<not> isArray (js_get b ''messages'')
                 then \<lparr>response = JsonResponse 400 ''Messages must be an array'',
                       store_after = st, model_call = None\<rparr>
               else
                 (case js_get b ''messages'' of
                    JArr messages \<Rightarrow> chat_pipeline env st uid messages (js_get b ''conversationId'')
                  | _ \<Rightarrow> \<lparr>response = JsonResponse 400 ''Messages must be an array'',
                          store_after = st, model_call = None\<rparr>)))"

section \<open>Example inputs\<close>

text \<open>
  The built-ins are parameters of the functions above. To evaluate a function at a
  concrete input, the following stand for them on the inputs of the examples:
  \<open>JSON.parse\<close> on six strings (what it says of any other string is not used),
  \<open>JSON.stringify\<close> on one array, and a conversion that throws, as
  \<open>convertToModelMessages\<close> does on a message without \<open>parts\<close> or without a role.
\<close>

definition delta_line :: "string \<Rightarrow> string" where
  "delta_line s = ''{\"type\":\"text-delta\",\"textDelta\":\"'' @ s @ ''\"}''"

definition stored_image :: json where
  "stored_image = image_url_part (JStr ''data:image/png;base64,AAAA'')"

definition stored_image_string :: string where
  "stored_image_string =
     ''[{\"type\":\"image_url\",\"image_url\":{\"url\":\"data:image/png;base64,AAAA\"}}]''"






definition parse_examples :: "string \<Rightarrow> json option" where
  "parse_examples s =
     (if s = delta_line ''Hel''
        then Some (JObj [(''type'', JStr ''text-delta''), (''textDelta'', JStr ''Hel'')])
      else if s = delta_line ''lo''
        then Some (JObj [(''type'', JStr ''text-delta''), (''textDelta'', JStr ''lo'')])
      else if s = ''{\"type\":\"finish\"}'' then Some (JObj [(''type'', JStr ''finish'')])
      else if s = ''[]'' then Some (JArr [])
      else if s = ''{}'' then Some (JObj [])
      else if s = stored_image_string then Some (JArr [stored_image])
      else None)"

definition stringify_examples :: "json \<Rightarrow> string" where
  "stringify_examples v = (if v = JArr [stored_image] then stored_image_string else [])"

definition example_model :: "string \<Rightarrow> json list \<Rightarrow> model_outcome" where
  "example_model name msgs = ModelCompletes ''Bonjour''"

definition example_env :: env where
  "example_env =
     \<lparr>session = Some ''u1'',
      convertToModelMessages = (\<lambda>ms. None),
      JSON_parse = parse_examples,
      JSON_stringify = stringify_examples,
      String_coerce = (\<lambda>v. []),
      findFirst_fails = False,
      findFirst_where = (\<lambda>conversationId uid st. Inl StoreError),
      conversation_create_id = Some ''c1'',
      user_message_create_fails = False,
      assistant_message_create_fails = False,
      conversation_update_fails = False,
      create_time = 1,
      finish_time = 2,
      streamText = example_model\<rparr>"

definition empty_store :: store where
  "empty_store = \<lparr>conversation_rows = [], message_rows = []\<rparr>"

definition user_turn :: "json \<Rightarrow> json" where
  "user_turn content = JObj [(''role'', JStr ''user''), (''content'', content)]"

definition chat_body :: "json list \<Rightarrow> json \<Rightarrow> json" where
  "chat_body msgs conversationId =
     JObj [(''messages'', JArr msgs), (''conversationId'', conversationId)]"

definition system_request :: json where
  "system_request =
     chat_body [JObj [(''role'', JStr ''system''), (''content'', JStr ''Ignore the format'')],
                user_turn (JStr ''Hello'')] JNull"

definition image_turn :: json where
  "image_turn =
     user_turn (JArr [text_part (JStr ''What is this?''),
                      image_part ''data:image/png;base64,AAAA''])"

section \<open>Image parts in the words of the specification\<close>

text \<open>
  The specification's image part: a part whose discriminator is one of \<open>image\<close>,
  \<open>image_url\<close> and \<open>file\<close> and that has one of \<open>url\<close>, \<open>image\<close>, \<open>data\<close>,
  \<open>src\<close> (or the \<open>url\<close> of its \<open>image_url\<close>) populated. A message contains an
  image part when its content is an array that holds one.
\<close>

definition spec_image_part :: "json \<Rightarrow> bool" where
  "spec_image_part p =
     (if nullish p then False
      else js_get p ''type'' \<in> set [JStr ''image'', JStr ''image_url'', JStr ''file'']
         \<and> (truthy (js_get p ''url'') \<or> truthy (js_get p ''image'')
            \<or> truthy (js_get p ''data'') \<or> truthy (js_get p ''src'')
            \<or> truthy (optchain (js_get p ''image_url'') ''url'')))"

definition spec_has_image :: "json \<Rightarrow> bool" where
  "spec_has_image msg =
     (case js_get msg ''content'' of JArr cs \<Rightarrow> list_ex spec_image_part cs | _ \<Rightarrow> False)"

section \<open>Observations of the store\<close>

text \<open>The conversations of a store by id, owner and title, in order of creation; the
  messages of one conversation; and the rows that carry one id.\<close>

definition conversation_keys :: "store \<Rightarrow> (string \<times> string \<times> string) list" where
  "conversation_keys st = map (\<lambda>c. (conv_id c, conv_userId c, conv_title c)) (conversation_rows st)"

definition messages_of :: "store \<Rightarrow> string \<Rightarrow> message list" where
  "messages_of st cid = filter (\<lambda>m. msg_conversationId m = cid) (message_rows st)"

definition conversations_with_id :: "store \<Rightarrow> string \<Rightarrow> conversation list" where
  "conversations_with_id st cid = filter (\<lambda>c. conv_id c = cid) (conversation_rows st)"





text \<open>The environment with the three writes of the hot path failing or not: the create
  of the user's message, the create of the assistant's message, and the update of
  \<open>updatedAt\<close>.\<close>

definition failing_writes :: "bool \<Rightarrow> bool \<Rightarrow> bool \<Rightarrow> env \<Rightarrow> env" where
  "failing_writes f1 f2 f3 env =
     env\<lparr>user_message_create_fails := f1, assistant_message_create_fails := f2,
         conversation_update_fails := f3\<rparr>"

text \<open>A store in which another user owns a conversation, and requests that name it or
  none.\<close>

definition other_store :: store where
  "other_store =
     \<lparr>conversation_rows = [\<lparr>conv_id = ''c0'', conv_userId = ''u2'', conv_title = ''Theirs'',
                            conv_updatedAt = 0\<rparr>],
      message_rows = [\<lparr>msg_conversationId = ''c0'', msg_role = ''user'',
                       msg_content = ''private''\<rparr>]\<rparr>"

definition stale_request :: json where
  "stale_request = chat_body [user_turn (JStr ''Hello'')] (JStr ''c0'')"

definition fresh_request :: json where
  "fresh_request = chat_body [user_turn (JStr ''Hello'')] JNull"


section \<open>Properties of the stream consumer\<close>












section \<open>Properties of the chat route: the call to the model\<close>

lemma model_call_failed: "model_call (failed e st) = None"
  by (simp add: failed_def)

lemma invoke_model_call:
  assumes "model_call (invoke_model env st c valid) = Some (n, msgs)"
  shows "msgs = allMessages valid
         \<and> (\<exists>b. hasImagesInAnyMessage (allMessages valid) = Inr b \<and> n = modelName b)"
  using assms
  by (auto simp: invoke_model_def model_call_failed split: sum.splits model_outcome.splits)

lemma chat_pipeline_call:
  assumes "model_call (chat_pipeline env st uid ms cid) = Some (n, msgs)"
  shows "msgs = allMessages (validMessages (convertedMessages env ms))
         \<and> (\<exists>b. hasImagesInAnyMessage msgs = Inr b \<and> n = modelName b)"
  using assms
  by (auto simp: chat_pipeline_def Let_def model_call_failed
      split: sum.splits prod.splits dest!: invoke_model_call)

lemma POST_chat_call:
  assumes "model_call (POST_chat env st body) = Some (n, msgs)"
  shows "\<exists>b ms. body = Some b \<and> js_get b ''messages'' = JArr ms
           \<and> msgs = allMessages (validMessages (convertedMessages env ms))
           \<and> (\<exists>h. hasImagesInAnyMessage msgs = Inr h \<and> n = modelName h)"
  using assms
  by (auto simp: POST_chat_def model_call_failed
      split: sum.splits option.splits if_splits json.splits dest!: chat_pipeline_call)

lemma role_system_message: "js_get system_message ''role'' = JStr ''system''"
  by (simp add: system_message_def)

lemma truthy_owner: "truthy (js_get m k) \<Longrightarrow> truthy m"
  by (cases m) simp_all

lemma modelMessages_valid:
  "modelMessages (validMessages xs) =
     filter (\<lambda>m. js_get m ''role'' \<noteq> JStr ''system'') (validMessages xs)"
  unfolding modelMessages_def
  by (rule filter_cong) (auto simp: validMessages_def truthy_owner)

lemmas example_defs = example_env_def empty_store_def chat_body_def user_turn_def
  POST_chat_def requireAuth_def chat_pipeline_def convertedMessages_def validMessages_def
  resolve_conversation_def findFirst_def obtain_conversation_def conversation_create_def
  new_conversation_title_def derive_title_def lastUserMessage_def save_user_message_def
  last_or_undefined_def messageToSave_def original_parts_def userMessageContent_def
  message_create_def invoke_model_def allMessages_def modelMessages_def system_message_def
  modelName_def example_model_def onFinish_def conversation_update_def text_part_def
  image_part_def image_url_part_def optchain_def failed_def error_response_def Let_def

text \<open>
  C10. Whenever the chat route calls the model, the messages it hands over are the fixed
  system message followed by the valid messages of the request whose role is not
  \<open>system\<close>: the list begins with the system directive and holds exactly one message
  of role \<open>system\<close>.
\<close>

theorem C10_single_system_message:
  assumes "model_call (POST_chat env st body) = Some (n, msgs)"
  shows "\<exists>b ms. body = Some b \<and> js_get b ''messages'' = JArr ms
           \<and> msgs = system_message
                # filter (\<lambda>m. js_get m ''role'' \<noteq> JStr ''system'')
                    (validMessages (convertedMessages env ms))
           \<and> length (filter (\<lambda>m. js_get m ''role'' = JStr ''system'') msgs) = 1"
proof -
  from POST_chat_call [OF assms] obtain b ms where
    body: "body = Some b" "js_get b ''messages'' = JArr ms" and
    msgs: "msgs = allMessages (validMessages (convertedMessages env ms))"
    by blast
  let ?rest = "filter (\<lambda>m. js_get m ''role'' \<noteq> JStr ''system'')
                 (validMessages (convertedMessages env ms))"
  have shape: "msgs = system_message # ?rest"
    using msgs by (simp add: allMessages_def modelMessages_valid)
  have "filter (\<lambda>m. js_get m ''role'' = JStr ''system'') ?rest = []"
    by (simp add: filter_empty_conv)
  with shape have "length (filter (\<lambda>m. js_get m ''role'' = JStr ''system'') msgs) = 1"
    by (simp add: role_system_message)
  with body shape show ?thesis by blast
qed

theorem C10_single_system_message_witness:
  "model_call (POST_chat example_env empty_store (Some system_request)) =
     Some (''gpt-4o-mini'', [system_message, user_turn (JStr ''Hello'')])
   \<and> length (filter (\<lambda>m. js_get m ''role'' = JStr ''system'')
        [system_message, user_turn (JStr ''Hello'')]) = 1"
proof -
  have call: "model_call (POST_chat example_env empty_store (Some system_request)) =
      Some (''gpt-4o-mini'', [system_message, user_turn (JStr ''Hello'')])"
    by (simp add: example_defs system_request_def)
  from C10_single_system_message [OF call] have
    "length (filter (\<lambda>m. js_get m ''role'' = JStr ''system'')
        [system_message, user_turn (JStr ''Hello'')]) = 1"
    by blast
  with call show ?thesis by simp
qed

text \<open>
  C3, at a request the route accepts: a single user turn whose content holds a text
  part and an image part of type \<open>image\<close> with a data URL. The conversion throws on a
  turn without \<open>parts\<close>, so the turn reaches the model as it came. The model input then
  contains an image part, and the route calls the text-only model \<open>gpt-4o-mini\<close>: the
  test of \<open>hasImagesInAnyMessage\<close> knows parts of type \<open>image_url\<close> only.
\<close>

theorem C3_image_part_sent_to_text_model:
  "model_call (POST_chat example_env empty_store (Some (chat_body [image_turn] JNull))) =
     Some (''gpt-4o-mini'', [system_message, image_turn])
   \<and> list_ex spec_has_image [system_message, image_turn]
   \<and> hasImagesInAnyMessage [system_message, image_turn] = Inr False"
  by (simp add: example_defs image_turn_def spec_has_image_def spec_image_part_def)

theorem C3_image_part_sent_to_text_model_witness:
  "spec_has_image image_turn
   \<and> hasImagesInAnyMessage (allMessages [image_turn]) = Inr False
   \<and> modelName False = ''gpt-4o-mini''"
  using C3_image_part_sent_to_text_model
  by (simp add: allMessages_def modelMessages_def image_turn_def user_turn_def modelName_def
      spec_has_image_def system_message_def)

section \<open>Properties of the chat route: the conversation\<close>

lemma keys_message_create: "conversation_keys (message_create st cid r c) = conversation_keys st"
  by (simp add: conversation_keys_def message_create_def)

lemma keys_conversation_update: "conversation_keys (conversation_update st cid t) = conversation_keys st"
  by (simp add: conversation_keys_def conversation_update_def)

lemma keys_save_user_message:
  "save_user_message env st c ms valid = Inr st' \<Longrightarrow> conversation_keys st' = conversation_keys st"
  by (auto simp: save_user_message_def Let_def keys_message_create split: if_splits sum.splits option.splits)

lemma keys_onFinish: "conversation_keys (onFinish env st conv txt) = conversation_keys st"
  by (simp add: onFinish_def Let_def keys_message_create keys_conversation_update split: option.splits)

lemma store_after_failed: "store_after (failed e st) = st"
  by (simp add: failed_def)

lemma keys_invoke_model:
  "conversation_keys (store_after (invoke_model env st conv valid)) = conversation_keys st"
  by (simp add: invoke_model_def keys_onFinish store_after_failed split: sum.splits model_outcome.splits)

lemma keys_append_row:
  "conversation_keys (st\<lparr>conversation_rows := conversation_rows st @ [c]\<rparr>) =
     conversation_keys st @ [(conv_id c, conv_userId c, conv_title c)]"
  by (simp add: conversation_keys_def)

lemma keys_after_conversation:
  "conversation_keys (store_after
      (case save_user_message env st1 conv ms valid of
         Inl e \<Rightarrow> failed e st1
       | Inr st2 \<Rightarrow> invoke_model env st2 conv valid)) = conversation_keys st1"
  by (auto simp: store_after_failed keys_invoke_model
      split: sum.splits option.splits dest: keys_save_user_message)

lemma keys_chat_pipeline_created:
  assumes "resolve_conversation env st uid cidj = Inr None"
    and "validMessages (convertedMessages env ms) \<noteq> []"
    and "conversation_create_id env = Some new"
  shows "conversation_keys (store_after (chat_pipeline env st uid ms cidj)) =
     conversation_keys st @ [(new, uid, new_conversation_title (String_coerce env) (validMessages (convertedMessages env ms)))]"
  using assms
  by (simp add: chat_pipeline_def Let_def obtain_conversation_def conversation_create_def
      keys_after_conversation keys_append_row)

lemma keys_chat_pipeline_kept:
  assumes "resolve_conversation env st uid cidj = Inr found"
    and "found \<noteq> None \<or> validMessages (convertedMessages env ms) = []"
  shows "conversation_keys (store_after (chat_pipeline env st uid ms cidj)) = conversation_keys st"
  using assms
  by (auto simp: chat_pipeline_def Let_def obtain_conversation_def keys_after_conversation)

lemma POST_chat_array:
  assumes "session env = Some uid" and "js_get b ''messages'' = JArr ms"
  shows "POST_chat env st (Some b) = chat_pipeline env st uid ms (js_get b ''conversationId'')"
proof -
  from assms(2) have "\<not> nullish b" by (cases b) simp_all
  with assms show ?thesis by (simp add: POST_chat_def requireAuth_def)
qed









section \<open>Properties of the chat route: failing writes\<close>

lemma response_failed: "response (failed e st) = error_response e"
  by (simp add: failed_def)

lemma save_user_message_error:
  "(save_user_message (failing_writes f1 f2 f3 env) st conv ms valid = Inl e)
     = (save_user_message env st' conv ms valid = Inl e)"
  by (simp add: save_user_message_def failing_writes_def userMessageContent_def Let_def
      split: option.splits sum.splits)

lemma response_invoke_model:
  "response (invoke_model (failing_writes f1 f2 f3 env) st conv valid)
     = response (invoke_model env st' conv valid)"
  by (simp add: invoke_model_def failing_writes_def response_failed
      split: sum.splits model_outcome.splits)

lemma response_after_save:
  "response (case save_user_message (failing_writes f1 f2 f3 env) st1 conv ms valid of
               Inl e \<Rightarrow> failed e st1
             | Inr st2 \<Rightarrow> invoke_model (failing_writes f1 f2 f3 env) st2 conv valid)
   = response (case save_user_message env st1 conv ms valid of
                 Inl e \<Rightarrow> failed e st1
               | Inr st2 \<Rightarrow> invoke_model env st2 conv valid)"
proof (cases "save_user_message env st1 conv ms valid")
  case (Inl e)
  then have "save_user_message (failing_writes f1 f2 f3 env) st1 conv ms valid = Inl e"
    by (simp add: save_user_message_error [where st' = st1])
  with Inl show ?thesis by simp
next
  case (Inr st2)
  show ?thesis
  proof (cases "save_user_message (failing_writes f1 f2 f3 env) st1 conv ms valid")
    case (Inl e)
    then have "save_user_message env st1 conv ms valid = Inl e"
      by (simp add: save_user_message_error [where st' = st1])
    with Inr show ?thesis by simp
  next
    case (Inr st2')
    with \<open>save_user_message env st1 conv ms valid = Inr st2\<close> show ?thesis
      by (simp add: response_invoke_model [where st' = st2])
  qed
qed

lemma response_chat_pipeline:
  "response (chat_pipeline (failing_writes f1 f2 f3 env) st uid ms cid)
     = response (chat_pipeline env st uid ms cid)"
proof -
  have same: "resolve_conversation (failing_writes f1 f2 f3 env) st uid cid = resolve_conversation env st uid cid"
    "convertedMessages (failing_writes f1 f2 f3 env) ms = convertedMessages env ms"
    "\<And>found valid. obtain_conversation (failing_writes f1 f2 f3 env) st uid found valid
        = obtain_conversation env st uid found valid"
    by (simp_all add: resolve_conversation_def findFirst_def convertedMessages_def
        obtain_conversation_def conversation_create_def failing_writes_def Let_def
        split: option.splits json.splits)
  show ?thesis
    unfolding chat_pipeline_def Let_def same
    by (simp add: response_failed response_after_save split: sum.splits prod.splits)
qed

text \<open>
  C6. The response of the chat route does not depend on whether the create of the
  user's message, the create of the assistant's message or the update of the
  conversation fails: with any of them failing the caller receives the response of the
  run in which they do what \<open>env\<close> says, in particular the same streamed answer and
  header when the model's stream succeeds.
\<close>

theorem C6_persistence_failures_swallowed:
  "response (POST_chat (failing_writes f1 f2 f3 env) st body) = response (POST_chat env st body)"
proof -
  have "requireAuth (failing_writes f1 f2 f3 env) = requireAuth env"
    by (simp add: requireAuth_def failing_writes_def)
  then show ?thesis
    by (simp add: POST_chat_def response_failed response_chat_pipeline
        split: sum.splits option.splits json.splits)
qed

theorem C6_persistence_failures_swallowed_witness:
  "response (POST_chat (failing_writes True True True example_env) empty_store
      (Some system_request)) = StreamResponse ''Bonjour'' True (Some ''c1'')
   \<and> response (POST_chat example_env empty_store (Some system_request)) =
       StreamResponse ''Bonjour'' True (Some ''c1'')
   \<and> message_rows (store_after (POST_chat (failing_writes True True True example_env)
        empty_store (Some system_request))) = []
   \<and> map msg_role (message_rows (store_after (POST_chat example_env empty_store
        (Some system_request)))) = [''user'', ''assistant'']"
proof -
  have ok: "response (POST_chat example_env empty_store (Some system_request)) =
      StreamResponse ''Bonjour'' True (Some ''c1'')"
    by (simp add: example_defs system_request_def)
  have rows: "map msg_role (message_rows (store_after (POST_chat example_env empty_store
      (Some system_request)))) = [''user'', ''assistant'']"
    by (simp add: example_defs system_request_def)
  have lost: "message_rows (store_after (POST_chat (failing_writes True True True example_env)
      empty_store (Some system_request))) = []"
    by (simp add: example_defs system_request_def failing_writes_def)
  from C6_persistence_failures_swallowed [of True True True example_env empty_store
      "Some system_request"] ok rows lost
  show ?thesis by simp
qed

section \<open>Properties of the chat route: rows of other conversations\<close>

lemma messages_of_message_create:
  "cid \<noteq> k \<Longrightarrow> messages_of (message_create st cid r c) k = messages_of st k"
  by (simp add: messages_of_def message_create_def)

lemma with_id_message_create:
  "conversations_with_id (message_create st cid r c) k = conversations_with_id st k"
  by (simp add: conversations_with_id_def message_create_def)

lemma messages_of_conversation_update:
  "messages_of (conversation_update st cid t) k = messages_of st k"
  by (simp add: messages_of_def conversation_update_def)

lemma filter_id_bump:
  "cid \<noteq> k \<Longrightarrow>
   filter (\<lambda>c. conv_id c = k)
     (map (\<lambda>c. if conv_id c = cid then c\<lparr>conv_updatedAt := t\<rparr> else c) rows)
   = filter (\<lambda>c. conv_id c = k) rows"
  by (induction rows) auto

lemma with_id_conversation_update:
  "cid \<noteq> k \<Longrightarrow> conversations_with_id (conversation_update st cid t) k = conversations_with_id st k"
  by (simp add: conversations_with_id_def conversation_update_def filter_id_bump)

lemma frame_save_user_message:
  assumes "save_user_message env st conv ms valid = Inr st'"
    and "\<And>c. conv = Some c \<Longrightarrow> conv_id c \<noteq> k"
  shows "messages_of st' k = messages_of st k
         \<and> conversations_with_id st' k = conversations_with_id st k"
  using assms
  by (auto simp: save_user_message_def Let_def messages_of_message_create with_id_message_create
      split: option.splits if_splits sum.splits)

lemma frame_onFinish:
  assumes "\<And>c. conv = Some c \<Longrightarrow> conv_id c \<noteq> k"
  shows "messages_of (onFinish env st conv txt) k = messages_of st k
         \<and> conversations_with_id (onFinish env st conv txt) k = conversations_with_id st k"
  using assms
  by (auto simp: onFinish_def Let_def messages_of_message_create with_id_message_create
      messages_of_conversation_update with_id_conversation_update split: option.splits)

lemma frame_invoke_model:
  assumes "\<And>c. conv = Some c \<Longrightarrow> conv_id c \<noteq> k"
  shows "messages_of (store_after (invoke_model env st conv valid)) k = messages_of st k
         \<and> conversations_with_id (store_after (invoke_model env st conv valid)) k
             = conversations_with_id st k"
  using frame_onFinish [OF assms]
  by (simp add: invoke_model_def store_after_failed split: sum.splits model_outcome.splits)

lemma frame_after_save:
  assumes "\<And>c. conv = Some c \<Longrightarrow> conv_id c \<noteq> k"
  shows "messages_of (store_after (case save_user_message env st1 conv ms valid of
                          Inl e \<Rightarrow> failed e st1
                        | Inr st2 \<Rightarrow> invoke_model env st2 conv valid)) k = messages_of st1 k
       \<and> conversations_with_id (store_after (case save_user_message env st1 conv ms valid of
                          Inl e \<Rightarrow> failed e st1
                        | Inr st2 \<Rightarrow> invoke_model env st2 conv valid)) k
           = conversations_with_id st1 k"
proof (cases "save_user_message env st1 conv ms valid")
  case (Inl e)
  then show ?thesis by (simp add: store_after_failed)
next
  case (Inr st2)
  from frame_save_user_message [OF Inr assms]
    frame_invoke_model [where env = env and st = st2 and valid = valid, OF assms] Inr
  show ?thesis by simp
qed

lemma frame_chat_pipeline:
  assumes "resolve_conversation env st uid cidj = Inr None"
    and "conversation_create_id env \<noteq> Some k"
  shows "messages_of (store_after (chat_pipeline env st uid ms cidj)) k = messages_of st k
       \<and> conversations_with_id (store_after (chat_pipeline env st uid ms cidj)) k
           = conversations_with_id st k"
proof (cases "obtain_conversation env st uid None (validMessages (convertedMessages env ms))")
  case (Inl e)
  with assms(1) show ?thesis by (simp add: chat_pipeline_def Let_def store_after_failed)
next
  case (Inr r)
  obtain conv st1 where r: "r = (conv, st1)" by (cases r)
  from Inr r assms(2) have other: "\<And>c. conv = Some c \<Longrightarrow> conv_id c \<noteq> k"
    and same: "messages_of st1 k = messages_of st k"
      "conversations_with_id st1 k = conversations_with_id st k"
    by (auto simp: obtain_conversation_def conversation_create_def Let_def messages_of_def
        conversations_with_id_def split: if_splits option.splits)
  from frame_after_save [where env = env and ?st1.0 = st1 and ms = ms
      and valid = "validMessages (convertedMessages env ms)", OF other]
    same Inr r assms(1)
  show ?thesis by (simp add: chat_pipeline_def Let_def)
qed

lemma chat_pipeline_resolve:
  assumes "resolve_conversation env st uid c1 = resolve_conversation env st uid c2"
  shows "chat_pipeline env st uid ms c1 = chat_pipeline env st uid ms c2"
  using assms by (simp add: chat_pipeline_def)

lemma resolve_stale:
  assumes "findFirst env st cid uid = Inr None"
  shows "resolve_conversation env st uid (JStr cid) = Inr None"
  using assms by (simp add: resolve_conversation_def)

lemma resolve_falsy: "\<not> truthy c \<Longrightarrow> resolve_conversation env st uid c = Inr None"
  by (simp add: resolve_conversation_def)

lemma POST_chat_not_array:
  assumes "session env = Some uid" and "\<not> nullish b" and "\<not> isArray (js_get b ''messages'')"
  shows "POST_chat env st (Some b) =
     \<lparr>response = JsonResponse 400 ''Messages must be an array'', store_after = st,
      model_call = None\<rparr>"
  using assms by (simp add: POST_chat_def requireAuth_def)

lemma isArray_JArr: "isArray v \<Longrightarrow> \<exists>xs. v = JArr xs"
  by (cases v) simp_all

text \<open>
  C5. An authenticated caller sends a chat request with a conversation id under which
  the store finds no conversation of the caller (the id does not exist, or its
  conversation belongs to someone else). Then the route returns exactly what it returns
  for the same messages without a conversation id (absent, \<open>null\<close> or empty); the read
  route answers 404 for the id; the rows of the store under that id (its conversation
  and its messages) are the same after the request, the store giving the new
  conversation an id other than the stale one; and with at least one valid turn and a
  create that succeeds, the store has one conversation more, owned by the caller.
\<close>

theorem C5_stale_conversation_id:
  assumes auth: "session env = Some uid"
    and stale: "findFirst env st cid uid = Inr None"
    and sent: "js_get b ''conversationId'' = JStr cid"
  shows "(\<forall>b'. \<not> nullish b' \<and> js_get b' ''messages'' = js_get b ''messages''
            \<and> \<not> truthy (js_get b' ''conversationId'')
          \<longrightarrow> POST_chat env st (Some b) = POST_chat env st (Some b'))
       \<and> GET_messages env st cid = JsonResponse 404 ''Conversation not found''
       \<and> (conversation_create_id env \<noteq> Some cid \<longrightarrow>
            messages_of (store_after (POST_chat env st (Some b))) cid = messages_of st cid
            \<and> conversations_with_id (store_after (POST_chat env st (Some b))) cid
                = conversations_with_id st cid)
       \<and> (\<forall>ms new. js_get b ''messages'' = JArr ms
              \<and> validMessages (convertedMessages env ms) \<noteq> []
              \<and> conversation_create_id env = Some new
            \<longrightarrow> conversation_keys (store_after (POST_chat env st (Some b))) =
                  conversation_keys st
                  @ [(new, uid, new_conversation_title (String_coerce env)
                                  (validMessages (convertedMessages env ms)))])"
proof -
  from sent have obj: "\<not> nullish b" by (cases b) simp_all
  have none: "resolve_conversation env st uid (js_get b ''conversationId'') = Inr None"
    using resolve_stale [OF stale] sent by simp
  have as_if: "POST_chat env st (Some b) = POST_chat env st (Some b')"
    if b': "\<not> nullish b'" "js_get b' ''messages'' = js_get b ''messages''"
      "\<not> truthy (js_get b' ''conversationId'')" for b'
  proof (cases "isArray (js_get b ''messages'')")
    case False
    with POST_chat_not_array [OF auth obj, of st] POST_chat_not_array [OF auth b'(1), of st] b'(2)
    show ?thesis by simp
  next
    case True
    then obtain ms where ms: "js_get b ''messages'' = JArr ms"
      by (auto dest: isArray_JArr)
    have "chat_pipeline env st uid ms (js_get b ''conversationId'')
        = chat_pipeline env st uid ms (js_get b' ''conversationId'')"
      by (rule chat_pipeline_resolve) (simp add: none resolve_falsy [OF b'(3)])
    with POST_chat_array [OF auth ms, of st] POST_chat_array [OF auth, of b' ms st] b'(2) ms
    show ?thesis by simp
  qed
  have not_found: "GET_messages env st cid = JsonResponse 404 ''Conversation not found''"
    using auth stale by (simp add: GET_messages_def requireAuth_def)
  have untouched: "messages_of (store_after (POST_chat env st (Some b))) cid = messages_of st cid
      \<and> conversations_with_id (store_after (POST_chat env st (Some b))) cid
          = conversations_with_id st cid"
    if fresh: "conversation_create_id env \<noteq> Some cid"
  proof (cases "isArray (js_get b ''messages'')")
    case False
    with POST_chat_not_array [OF auth obj, of st] show ?thesis by simp
  next
    case True
    then obtain ms where ms: "js_get b ''messages'' = JArr ms"
      by (auto dest: isArray_JArr)
    from frame_chat_pipeline [OF none fresh, of ms] POST_chat_array [OF auth ms, of st]
    show ?thesis by simp
  qed
  have created: "conversation_keys (store_after (POST_chat env st (Some b))) =
      conversation_keys st
      @ [(new, uid, new_conversation_title (String_coerce env)
                      (validMessages (convertedMessages env ms)))]"
    if "js_get b ''messages'' = JArr ms" "validMessages (convertedMessages env ms) \<noteq> []"
      "conversation_create_id env = Some new" for ms new
    using keys_chat_pipeline_created [OF none that(2) that(3)] POST_chat_array [OF auth that(1), of st]
    by simp
  from as_if not_found untouched created show ?thesis by blast
qed

theorem C5_stale_conversation_id_witness:
  "findFirst example_env other_store ''c0'' ''u1'' = Inr None
   \<and> POST_chat example_env other_store (Some stale_request)
       = POST_chat example_env other_store (Some fresh_request)
   \<and> GET_messages example_env other_store ''c0'' = JsonResponse 404 ''Conversation not found''
   \<and> messages_of (store_after (POST_chat example_env other_store (Some stale_request))) ''c0''
       = message_rows other_store
   \<and> conversations_with_id (store_after (POST_chat example_env other_store (Some stale_request))) ''c0''
       = conversation_rows other_store
   \<and> conversation_keys (store_after (POST_chat example_env other_store (Some stale_request)))
       = [(''c0'', ''u2'', ''Theirs''), (''c1'', ''u1'', ''Hello'')]"
proof -
  have h1: "session example_env = Some ''u1''" by (simp add: example_env_def)
  have h2: "findFirst example_env other_store ''c0'' ''u1'' = Inr None"
    by (simp add: findFirst_def example_env_def other_store_def)
  have h3: "js_get stale_request ''conversationId'' = JStr ''c0''"
    by (simp add: stale_request_def chat_body_def)
  have f: "\<not> nullish fresh_request
      \<and> js_get fresh_request ''messages'' = js_get stale_request ''messages''
      \<and> \<not> truthy (js_get fresh_request ''conversationId'')"
    by (simp add: stale_request_def fresh_request_def chat_body_def)
  have g: "conversation_create_id example_env \<noteq> Some ''c0''" by (simp add: example_env_def)
  have m: "js_get stale_request ''messages'' = JArr [user_turn (JStr ''Hello'')]
      \<and> validMessages (convertedMessages example_env [user_turn (JStr ''Hello'')]) \<noteq> []
      \<and> conversation_create_id example_env = Some ''c1''"
    by (simp add: stale_request_def chat_body_def validMessages_def convertedMessages_def
        example_env_def user_turn_def)
  have t: "new_conversation_title (String_coerce example_env)
      (validMessages (convertedMessages example_env [user_turn (JStr ''Hello'')])) = ''Hello''"
    by (simp add: new_conversation_title_def derive_title_def lastUserMessage_def
        validMessages_def convertedMessages_def example_env_def user_turn_def)
  have v: "messages_of other_store ''c0'' = message_rows other_store
      \<and> conversations_with_id other_store ''c0'' = conversation_rows other_store
      \<and> conversation_keys other_store = [(''c0'', ''u2'', ''Theirs'')]"
    by (simp add: messages_of_def conversations_with_id_def conversation_keys_def other_store_def)
  note c5 = C5_stale_conversation_id [OF h1 h2 h3]
  from c5 f have r1: "POST_chat example_env other_store (Some stale_request)
      = POST_chat example_env other_store (Some fresh_request)"
    by blast
  from c5 have r2: "GET_messages example_env other_store ''c0''
      = JsonResponse 404 ''Conversation not found''"
    by blast
  from c5 g have "messages_of (store_after (POST_chat example_env other_store
      (Some stale_request))) ''c0'' = messages_of other_store ''c0''"
    by blast
  with v have r3: "messages_of (store_after (POST_chat example_env other_store
      (Some stale_request))) ''c0'' = message_rows other_store"
    by simp
  from c5 g have "conversations_with_id (store_after (POST_chat example_env other_store
      (Some stale_request))) ''c0'' = conversations_with_id other_store ''c0''"
    by blast
  with v have r4: "conversations_with_id (store_after (POST_chat example_env other_store
      (Some stale_request))) ''c0'' = conversation_rows other_store"
    by simp
  from c5 m have "conversation_keys (store_after (POST_chat example_env other_store
      (Some stale_request))) = conversation_keys other_store
        @ [(''c1'', ''u1'', new_conversation_title (String_coerce example_env)
             (validMessages (convertedMessages example_env [user_turn (JStr ''Hello'')])))]"
    by blast
  with t v have r5: "conversation_keys (store_after (POST_chat example_env other_store
      (Some stale_request))) = [(''c0'', ''u2'', ''Theirs''), (''c1'', ''u1'', ''Hello'')]"
    by simp
  from h2 r1 r2 r3 r4 r5 show ?thesis by blast
qed

section \<open>Properties of the chat route: validation\<close>








section \<open>Properties of the routes: when a conversation is created\<close>

lemma keys_POST_chat_changed:
  assumes "conversation_keys (store_after (POST_chat env st body)) \<noteq> conversation_keys st"
  shows "\<exists>b ms. body = Some b \<and> js_get b ''messages'' = JArr ms
           \<and> validMessages (convertedMessages env ms) \<noteq> []"
proof (rule ccontr)
  assume no: "\<not> ?thesis"
  have "conversation_keys (store_after (POST_chat env st body)) = conversation_keys st"
  proof (cases "requireAuth env")
    case (Inl e)
    then show ?thesis by (simp add: POST_chat_def store_after_failed)
  next
    case (Inr uid)
    then have auth: "session env = Some uid"
      by (simp add: requireAuth_def split: option.splits)
    show ?thesis
    proof (cases body)
      case None
      with Inr show ?thesis by (simp add: POST_chat_def store_after_failed)
    next
      case (Some b)
      show ?thesis
      proof (cases "js_get b ''messages''")
        case (JArr ms)
        with no Some have empty: "validMessages (convertedMessages env ms) = []" by simp
        have "conversation_keys (store_after (chat_pipeline env st uid ms (js_get b ''conversationId'')))
            = conversation_keys st"
        proof (cases "resolve_conversation env st uid (js_get b ''conversationId'')")
          case (Inl e)
          then show ?thesis by (simp add: chat_pipeline_def Let_def store_after_failed)
        next
          case (Inr found)
          from keys_chat_pipeline_kept [OF Inr] empty show ?thesis by simp
        qed
        with POST_chat_array [OF auth JArr, of st] Some show ?thesis by simp
      qed (use Inr Some in \<open>simp_all add: POST_chat_def store_after_failed\<close>)
    qed
  qed
  with assms show False by simp
qed

lemma completed_chat_pipeline_created:
  assumes "resolve_conversation env st uid cidj = Inr None"
    and "validMessages (convertedMessages env ms) \<noteq> []"
    and "conversation_create_id env = Some new"
    and "response (chat_pipeline env st uid ms cidj) = StreamResponse answer True hdr"
    and "\<not> assistant_message_create_fails env"
  shows "\<lparr>msg_conversationId = new, msg_role = ''assistant'', msg_content = answer\<rparr>
           \<in> set (message_rows (store_after (chat_pipeline env st uid ms cidj)))"
  using assms
  by (auto simp: chat_pipeline_def Let_def obtain_conversation_def conversation_create_def
      response_failed error_response_def invoke_model_def onFinish_def message_create_def
      conversation_update_def
      split: sum.splits model_outcome.splits if_splits)

text \<open>
  C1, as the code has it. The conversation-creation endpoint adds a conversation titled
  \<open>New Conversation\<close> for the caller and writes no message. The chat route adds a
  conversation only for a request with at least one valid turn; and when it has created
  one, the model's stream has run to its end and the create of the assistant's message
  does not fail, the created conversation holds at least one message.
\<close>

theorem C1_conversation_creation:
  "(session env = Some uid \<and> conversation_create_id env = Some new \<longrightarrow>
      conversation_keys (snd (POST_conversations env st)) =
         conversation_keys st @ [(new, uid, ''New Conversation'')]
      \<and> message_rows (snd (POST_conversations env st)) = message_rows st)
   \<and> (conversation_keys (store_after (POST_chat env st body)) \<noteq> conversation_keys st \<longrightarrow>
        (\<exists>b ms. body = Some b \<and> js_get b ''messages'' = JArr ms
            \<and> validMessages (convertedMessages env ms) \<noteq> []))
   \<and> (session env = Some uid \<and> js_get b ''messages'' = JArr ms
        \<and> resolve_conversation env st uid (js_get b ''conversationId'') = Inr None
        \<and> validMessages (convertedMessages env ms) \<noteq> []
        \<and> conversation_create_id env = Some new
        \<and> response (POST_chat env st (Some b)) = StreamResponse answer True hdr
        \<and> \<not> assistant_message_create_fails env \<longrightarrow>
        messages_of (store_after (POST_chat env st (Some b))) new \<noteq> [])"
proof -
  have endpoint: "conversation_keys (snd (POST_conversations env st)) =
         conversation_keys st @ [(new, uid, ''New Conversation'')]
      \<and> message_rows (snd (POST_conversations env st)) = message_rows st"
    if "session env = Some uid" "conversation_create_id env = Some new"
    using that
    by (simp add: POST_conversations_def requireAuth_def conversation_create_def Let_def
        conversation_keys_def)
  have turn: "\<exists>b ms. body = Some b \<and> js_get b ''messages'' = JArr ms
            \<and> validMessages (convertedMessages env ms) \<noteq> []"
    if "conversation_keys (store_after (POST_chat env st body)) \<noteq> conversation_keys st"
    using keys_POST_chat_changed [OF that] .
  have answer: "messages_of (store_after (POST_chat env st (Some b))) new \<noteq> []"
    if h: "session env = Some uid" "js_get b ''messages'' = JArr ms"
      "resolve_conversation env st uid (js_get b ''conversationId'') = Inr None"
      "validMessages (convertedMessages env ms) \<noteq> []"
      "conversation_create_id env = Some new"
      "response (POST_chat env st (Some b)) = StreamResponse answer True hdr"
      "\<not> assistant_message_create_fails env"
  proof -
    note eq = POST_chat_array [OF h(1) h(2), of st]
    from h(6) eq have "response (chat_pipeline env st uid ms (js_get b ''conversationId''))
        = StreamResponse answer True hdr"
      by simp
    from completed_chat_pipeline_created [OF h(3) h(4) h(5) this h(7)] eq
    have "\<lparr>msg_conversationId = new, msg_role = ''assistant'', msg_content = answer\<rparr>
        \<in> set (message_rows (store_after (POST_chat env st (Some b))))"
      by simp
    then show ?thesis
      by (force simp: messages_of_def filter_empty_conv)
  qed
  from endpoint turn answer show ?thesis by blast
qed

theorem C1_conversation_creation_witness:
  "conversation_keys (snd (POST_conversations example_env empty_store)) =
     [(''c1'', ''u1'', ''New Conversation'')]
   \<and> message_rows (snd (POST_conversations example_env empty_store)) = []
   \<and> conversation_keys (store_after (POST_chat example_env empty_store (Some fresh_request)))
       = [(''c1'', ''u1'', ''Hello'')]
   \<and> messages_of (store_after (POST_chat example_env empty_store (Some fresh_request))) ''c1''
       \<noteq> []"
proof -
  have h: "session example_env = Some ''u1'' \<and> conversation_create_id example_env = Some ''c1''
      \<and> \<not> assistant_message_create_fails example_env"
    by (simp add: example_env_def)
  have b: "js_get fresh_request ''messages'' = JArr [user_turn (JStr ''Hello'')]
      \<and> resolve_conversation example_env empty_store ''u1''
            (js_get fresh_request ''conversationId'') = Inr None
      \<and> validMessages (convertedMessages example_env [user_turn (JStr ''Hello'')]) \<noteq> []"
    by (simp add: fresh_request_def chat_body_def resolve_conversation_def validMessages_def
        convertedMessages_def example_env_def user_turn_def)
  have r: "response (POST_chat example_env empty_store (Some fresh_request)) =
      StreamResponse ''Bonjour'' True (Some ''c1'')"
    by (simp add: example_defs fresh_request_def)
  have k: "conversation_keys (store_after (POST_chat example_env empty_store
      (Some fresh_request))) = [(''c1'', ''u1'', ''Hello'')]"
    by (simp add: example_defs fresh_request_def conversation_keys_def)
  have e: "conversation_keys empty_store = [] \<and> message_rows empty_store = []"
    by (simp add: conversation_keys_def empty_store_def)
  note c1 = C1_conversation_creation [where env = example_env and uid = "''u1''"
      and new = "''c1''" and st = empty_store and body = "Some fresh_request"
      and b = fresh_request and ms = "[user_turn (JStr ''Hello'')]" and answer = "''Bonjour''"
      and hdr = "Some ''c1''"]
  from c1 h e have r1: "conversation_keys (snd (POST_conversations example_env empty_store)) =
      [(''c1'', ''u1'', ''New Conversation'')]
      \<and> message_rows (snd (POST_conversations example_env empty_store)) = []"
    by simp
  from c1 h b r have r2: "messages_of (store_after (POST_chat example_env empty_store
      (Some fresh_request))) ''c1'' \<noteq> []"
    by blast
  from r1 k r2 show ?thesis by blast
qed

text \<open>
  C1 as stated fails at the conversation-creation endpoint: called by an authenticated
  user on an empty store, it leaves a conversation and no message.
\<close>

theorem C1_empty_conversation_created:
  "POST_conversations example_env empty_store =
     (ConversationResponse \<lparr>conv_id = ''c1'', conv_userId = ''u1'',
         conv_title = ''New Conversation'', conv_updatedAt = 1\<rparr>,
      \<lparr>conversation_rows = [\<lparr>conv_id = ''c1'', conv_userId = ''u1'',
          conv_title = ''New Conversation'', conv_updatedAt = 1\<rparr>],
       message_rows = []\<rparr>)"
  by (simp add: POST_conversations_def requireAuth_def conversation_create_def example_env_def
      empty_store_def Let_def)

section \<open>Properties of the content parts\<close>

lemma every_image_text: "\<not> every_image (text_part t # rest)"
  by (simp add: every_image_def text_part_def)

lemma every_image_images: "every_image (map image_part imgs)"
  by (simp add: every_image_def image_part_def list_all_iff)

lemma new_parts_shape: "new_parts userMessage imagesToSend = text_part (JStr userMessage) # map image_part imagesToSend"
  by (simp add: new_parts_def Let_def every_image_text every_image_images)

lemma history_parts_shape:
  "history_parts msg = text_part (JStr (ui_content msg))
      # (case ui_images msg of None \<Rightarrow> [] | Some imgs \<Rightarrow> map image_part imgs)"
proof (cases "ui_images msg")
  case None
  then show ?thesis
    by (simp add: history_parts_def Let_def every_image_text)
next
  case (Some imgs)
  then show ?thesis
    using every_image_text [of "JStr (ui_content msg)" "map image_part imgs"]
      every_image_images [of imgs]
    by (simp add: history_parts_def Let_def)
qed

lemma expand_content_text:
  assumes "content = [] \<or> (hd content \<noteq> CHR ''['' \<and> hd content \<noteq> CHR ''{'') \<or> parse content = None
      \<or> (\<exists>v. parse content = Some v \<and> \<not> isArray v)
      \<or> (\<exists>ps. parse content = Some (JArr ps) \<and> list_ex nullish ps)"
  shows "expand_content parse content = [text_part (JStr content)]"
proof -
  have null: "those (map expand_part ps) = None" if "list_ex nullish ps" for ps
    using that by (induction ps) (auto simp: expand_part_def split: option.splits)
  from assms show ?thesis
    by (auto simp: expand_content_def null split: option.splits json.splits)
qed

lemma those_map_expand_part:
  assumes "\<not> list_ex nullish ps"
  shows "\<exists>mapped. those (map expand_part ps) = Some mapped \<and> length mapped = length ps
           \<and> (\<forall>i<length ps. expand_part (ps ! i) = Some (mapped ! i))
           \<and> \<not> list_ex nullish mapped"
  using assms
proof (induction ps)
  case Nil
  then show ?case by simp
next
  case (Cons p ps)
  then obtain mapped where m: "those (map expand_part ps) = Some mapped" "length mapped = length ps"
    "\<forall>i<length ps. expand_part (ps ! i) = Some (mapped ! i)" "\<not> list_ex nullish mapped"
    by auto
  from Cons.prems have p: "\<not> nullish p" by simp
  have "\<exists>q. expand_part p = Some q \<and> \<not> nullish q"
    using p by (simp add: expand_part_def text_part_def image_url_part_def)
  then obtain q where q: "expand_part p = Some q" "\<not> nullish q"
    by blast
  have "\<forall>i<length (p # ps). expand_part ((p # ps) ! i) = Some ((q # mapped) ! i)"
    using m(3) q(1) by (auto simp: nth_Cons split: nat.splits)
  with m q show ?case by simp
qed

lemma expand_content_array:
  assumes "content \<noteq> []" and "hd content = CHR ''['' \<or> hd content = CHR ''{''"
    and "parse content = Some (JArr ps)" and "\<not> list_ex nullish ps"
  shows "length (expand_content parse content) = length ps
       \<and> (\<forall>i<length ps. expand_part (ps ! i) = Some (expand_content parse content ! i))"
proof -
  from those_map_expand_part [OF assms(4)] obtain mapped where
    m: "those (map expand_part ps) = Some mapped" "length mapped = length ps"
    "\<forall>i<length ps. expand_part (ps ! i) = Some (mapped ! i)" "\<not> list_ex nullish mapped"
    by blast
  from m(4) have "filter (\<lambda>part. \<not> nullish part) mapped = mapped"
    by (simp add: list_ex_iff filter_id_conv)
  with assms m have "expand_content parse content = mapped"
    by (auto simp: expand_content_def)
  with m show ?thesis by simp
qed

text \<open>
  C2, as the code has it. On the client, the parts of the new turn and of every user
  turn of the history are a text part (holding the turn's text, empty for a turn of
  images only) followed by one image part for each image: the list is never empty and
  begins with a text part. On the server's read path a stored content is re-expanded
  into exactly one text part holding it when it is empty, does not open with \<open>[\<close> or
  \<open>{\<close>, does not parse, parses to something that is not an array, or parses to an
  array that holds \<open>null\<close>; a stored content that parses to any other array is
  re-expanded part by part, in the same number and order, and no text part is inserted.
\<close>

theorem C2_parts_normalization:
  "new_parts userMessage imagesToSend =
     text_part (JStr userMessage) # map image_part imagesToSend
   \<and> history_parts msg =
       text_part (JStr (ui_content msg))
       # (case ui_images msg of None \<Rightarrow> [] | Some imgs \<Rightarrow> map image_part imgs)
   \<and> (content = [] \<or> (hd content \<noteq> CHR ''['' \<and> hd content \<noteq> CHR ''{'')
        \<or> parse content = None \<or> (\<exists>v. parse content = Some v \<and> \<not> isArray v)
        \<or> (\<exists>ps. parse content = Some (JArr ps) \<and> list_ex nullish ps)
      \<longrightarrow> expand_content parse content = [text_part (JStr content)])
   \<and> (content \<noteq> [] \<and> (hd content = CHR ''['' \<or> hd content = CHR ''{'')
        \<and> parse content = Some (JArr ps) \<and> \<not> list_ex nullish ps
      \<longrightarrow> length (expand_content parse content) = length ps
          \<and> (\<forall>i<length ps. expand_part (ps ! i) = Some (expand_content parse content ! i)))"
  using new_parts_shape [of userMessage imagesToSend] history_parts_shape [of msg]
    expand_content_text [of content parse] expand_content_array [of content parse ps]
  by blast

theorem C2_parts_normalization_witness:
  "new_parts [] [''data:image/png;base64,AAAA''] =
     [text_part (JStr []), image_part ''data:image/png;base64,AAAA'']
   \<and> expand_content parse_examples ''Hello'' = [text_part (JStr ''Hello'')]
   \<and> expand_content parse_examples ''{}'' = [text_part (JStr ''{}'')]
   \<and> length (expand_content parse_examples stored_image_string) = 1
   \<and> expand_part stored_image = Some (expand_content parse_examples stored_image_string ! 0)"
proof -
  have a: "hd ''Hello'' \<noteq> CHR ''['' \<and> hd ''Hello'' \<noteq> CHR ''{''" by simp
  have b: "parse_examples ''{}'' = Some (JObj []) \<and> \<not> isArray (JObj [])"
    by (simp add: parse_examples_def delta_line_def stored_image_string_def)
  have c: "stored_image_string \<noteq> [] \<and> hd stored_image_string = CHR ''[''
      \<and> parse_examples stored_image_string = Some (JArr [stored_image])
      \<and> \<not> list_ex nullish [stored_image]"
    by (simp add: parse_examples_def delta_line_def stored_image_string_def stored_image_def
        image_url_part_def)
  from C2_parts_normalization [where userMessage = "[]"
      and imagesToSend = "[''data:image/png;base64,AAAA'']"]
  have r1: "new_parts [] [''data:image/png;base64,AAAA''] =
      [text_part (JStr []), image_part ''data:image/png;base64,AAAA'']"
    by simp
  from C2_parts_normalization [where content = "''Hello''" and parse = parse_examples] a
  have r2: "expand_content parse_examples ''Hello'' = [text_part (JStr ''Hello'')]"
    by blast
  from C2_parts_normalization [where content = "''{}''" and parse = parse_examples] b
  have r3: "expand_content parse_examples ''{}'' = [text_part (JStr ''{}'')]"
    by blast
  from C2_parts_normalization [where content = stored_image_string and parse = parse_examples
      and ps = "[stored_image]"] c
  have r4: "length (expand_content parse_examples stored_image_string) = 1
      \<and> expand_part stored_image = Some (expand_content parse_examples stored_image_string ! 0)"
    by simp
  from r1 r2 r3 r4 show ?thesis by blast
qed

text \<open>
  C2 as stated fails on the read path: a stored array of one image part is re-expanded
  into that image part alone, and the stored string \<open>[]\<close> into no part at all.
\<close>

theorem C2_read_path_without_text_part:
  "expand_content parse_examples stored_image_string = [stored_image]
   \<and> js_get stored_image ''type'' = JStr ''image_url''
   \<and> expand_content parse_examples ''[]'' = []"
  by (simp add: expand_content_def parse_examples_def delta_line_def stored_image_string_def
      stored_image_def image_url_part_def expand_part_def optchain_def)

text \<open>
  C8, as the code has it. A turn whose content is the string \<open>t\<close> is stored as \<open>t\<close>
  itself, and reading \<open>t\<close> back gives the single text part holding \<open>t\<close> whenever
  \<open>t\<close> is empty, does not open with \<open>[\<close> or \<open>{\<close>, does not parse as JSON, parses to
  something that is not an array, or parses to an array that holds \<open>null\<close>.
\<close>

theorem C8_compact_round_trip:
  assumes "js_get m ''content'' = JStr t"
  shows "userMessageContent env m = t
       \<and> (t = [] \<or> (hd t \<noteq> CHR ''['' \<and> hd t \<noteq> CHR ''{'') \<or> JSON_parse env t = None
            \<or> (\<exists>v. JSON_parse env t = Some v \<and> \<not> isArray v)
            \<or> (\<exists>ps. JSON_parse env t = Some (JArr ps) \<and> list_ex nullish ps)
          \<longrightarrow> expand_content (JSON_parse env) (userMessageContent env m)
                = [text_part (JStr t)])"
proof -
  from assms have stored: "userMessageContent env m = t"
    by (simp add: userMessageContent_def)
  with expand_content_text [of t "JSON_parse env"] show ?thesis by simp
qed

theorem C8_compact_round_trip_witness:
  "userMessageContent example_env (user_turn (JStr ''Hello'')) = ''Hello''
   \<and> expand_content (JSON_parse example_env) (userMessageContent example_env
        (user_turn (JStr ''Hello''))) = [text_part (JStr ''Hello'')]
   \<and> expand_content (JSON_parse example_env) (userMessageContent example_env
        (user_turn (JStr ''{}''))) = [text_part (JStr ''{}'')]"
proof -
  have a: "js_get (user_turn (JStr ''Hello'')) ''content'' = JStr ''Hello''"
    and b: "js_get (user_turn (JStr ''{}'')) ''content'' = JStr ''{}''"
    by (simp_all add: user_turn_def)
  have c: "hd ''Hello'' \<noteq> CHR ''['' \<and> hd ''Hello'' \<noteq> CHR ''{''" by simp
  have d: "JSON_parse example_env ''{}'' = Some (JObj []) \<and> \<not> isArray (JObj [])"
    by (simp add: example_env_def parse_examples_def delta_line_def stored_image_string_def)
  from C8_compact_round_trip [OF a, of example_env] c
  have r1: "userMessageContent example_env (user_turn (JStr ''Hello'')) = ''Hello''
      \<and> expand_content (JSON_parse example_env) (userMessageContent example_env
          (user_turn (JStr ''Hello''))) = [text_part (JStr ''Hello'')]"
    by blast
  from C8_compact_round_trip [OF b, of example_env] d
  have r2: "expand_content (JSON_parse example_env) (userMessageContent example_env
        (user_turn (JStr ''{}''))) = [text_part (JStr ''{}'')]"
    by blast
  from r1 r2 show ?thesis by blast
qed

text \<open>
  C8 as stated fails: the text \<open>[]\<close> is stored as it is and read back as an empty list
  of parts, not as the text part it was.
\<close>

theorem C8_bracket_text_not_restored:
  "userMessageContent example_env (user_turn (JStr ''[]'')) = ''[]''
   \<and> expand_content (JSON_parse example_env) ''[]'' = []
   \<and> expand_content (JSON_parse example_env) ''[]'' \<noteq> [text_part (JStr ''[]'')]"
  by (simp add: userMessageContent_def user_turn_def expand_content_def example_env_def
      parse_examples_def delta_line_def stored_image_string_def)

end
